theory Spec2Isabelle
  imports Complex_Main "HOL-Library.AList" "HOL-Library.Sublist"
begin

section \<open>Python and Qt primitives used by the gallery delegate\<close>

text \<open>
  The delegate of \<^verbatim>\<open>cocktail/ui/model_gallery/delegate.py\<close> builds its cache keys with
  f-strings, fingerprints an image with \<^verbatim>\<open>hash(image.cacheKey())\<close>, and keeps its caches
  in Python dictionaries. The primitives below are the ones of CPython on a 64-bit
  platform: \<^verbatim>\<open>str\<close> of an integer and of a boolean, \<^verbatim>\<open>hash\<close> of an integer (reduction
  modulo the Mersenne prime \<open>2^61 - 1\<close>, sign kept, \<open>-1\<close> replaced by \<open>-2\<close>), the substring
  test \<^verbatim>\<open>a in b\<close> and \<^verbatim>\<open>s.split('_', 1)[1]\<close>.
\<close>

datatype exn = ZeroDivisionError | IndexError

definition digit_char :: "nat \<Rightarrow> char" where
  "digit_char d = ''0123456789'' ! d"

fun show_nat :: "nat \<Rightarrow> string" where
  "show_nat n = (if n < 10 then [digit_char n] else show_nat (n div 10) @ [digit_char (n mod 10)])"

declare show_nat.simps [simp del]

definition str_int :: "int \<Rightarrow> string" where
  "str_int i = (if i < 0 then CHR ''-'' # show_nat (nat (- i)) else show_nat (nat i))"

definition str_bool :: "bool \<Rightarrow> string" where
  "str_bool b = (if b then ''True'' else ''False'')"

definition py_hash :: "int \<Rightarrow> int" where
  "py_hash n =
     (let m = \<bar>n\<bar> mod (2 ^ 61 - 1);
          r = (if n < 0 then - m else m)
      in if r = - 1 then - 2 else r)"

text \<open>\<^verbatim>\<open>frag in k\<close> on strings: \<open>frag\<close> occurs in \<open>k\<close> as a contiguous block.\<close>

fun str_contains :: "string \<Rightarrow> string \<Rightarrow> bool" where
  "str_contains frag [] = (frag = [])"
| "str_contains frag (c # cs) = (prefix frag (c # cs) \<or> str_contains frag cs)"

text \<open>
  \<^verbatim>\<open>s.split(sep, 1)[1]\<close>: the text after the first separator; \<open>None\<close> where the
  separator does not occur and Python raises \<^verbatim>\<open>IndexError\<close>.
\<close>

fun after_first :: "char \<Rightarrow> string \<Rightarrow> string option" where
  "after_first sep [] = None"
| "after_first sep (c # cs) = (if c = sep then Some cs else after_first sep cs)"

text \<open>\<^verbatim>\<open>int(x)\<close> on a number: truncation towards zero.\<close>

definition py_int :: "rat \<Rightarrow> int" where
  "py_int x = (if x < 0 then \<lceil>x\<rceil> else \<lfloor>x\<rfloor>)"

text \<open>
  A Python \<^verbatim>\<open>dict\<close> keeps its keys in insertion order: assigning to a new key appends
  it, assigning to a present key keeps its place, \<^verbatim>\<open>del\<close> removes it. This is an
  association list with \<^const>\<open>AList.update\<close>, \<^const>\<open>AList.delete\<close> and
  \<^const>\<open>map_of\<close>; \<^verbatim>\<open>len\<close> is \<^const>\<open>length\<close>.
\<close>

section \<open>Data model\<close>

record qsize =
  sz_width :: int
  sz_height :: int

text \<open>
  A \<^verbatim>\<open>QImage\<close> as far as the delegate looks at it: \<^verbatim>\<open>isNull()\<close>, \<^verbatim>\<open>cacheKey()\<close>
  (a \<^verbatim>\<open>qint64\<close> serial number of the image's contents), \<^verbatim>\<open>width()\<close> and \<^verbatim>\<open>height()\<close>.
\<close>

record qimage =
  isNull :: bool
  cacheKey :: int
  img_width :: int
  img_height :: int

datatype transformation = FastTransformation | SmoothTransformation

text \<open>What \<^verbatim>\<open>ItemRenderWidget._getDisplayImage\<close> can return.\<close>

datatype display_image = LoadingPlaceholder | ErrorImage | Picture qimage

text \<open>
  A rendered \<^verbatim>\<open>QPixmap\<close> is determined by the state of the render widget at the time of
  \<^verbatim>\<open>render\<close>: its size, the two labels, the image \<^verbatim>\<open>paintEvent\<close> draws and the
  selection border.
\<close>

record pixmap =
  pm_size :: qsize
  pm_name :: "string option"
  pm_type :: "string option"
  pm_image :: display_image
  pm_selected :: bool

text \<open>
  The data of one model index: \<^verbatim>\<open>index.data(NameRole)\<close>, \<^verbatim>\<open>index.data(TypeRole)\<close> and
  \<^verbatim>\<open>index.data(DecorationRole)\<close>, each possibly \<^verbatim>\<open>None\<close>.
\<close>

record item =
  item_name :: "string option"
  item_type :: "string option"
  decoration :: "qimage option"

text \<open>The part of \<^verbatim>\<open>QStyleOptionViewItem\<close> that \<^verbatim>\<open>paint\<close> reads.\<close>

record style_option =
  opt_selected :: bool
  opt_rect :: qsize

record widget =
  w_image :: "qimage option"
  scaled_image_cache :: "qimage option"
  cache_size :: qsize
  loading_placeholder :: bool
  is_loading :: bool
  selected :: bool
  model_name :: "string option"
  model_type :: "string option"
  geometry :: qsize

text \<open>One queued invocation of \<^verbatim>\<open>ImageWorker.processImage\<close>.\<close>

record job =
  job_key :: string
  job_image :: qimage
  job_target :: qsize

text \<open>
  \<^verbatim>\<open>ModelGalleryItemDelegate\<close>. \<open>pending_loads\<close> is the key set of the dictionary
  \<^verbatim>\<open>_pending_loads\<close> (its values are weak references to the one render widget and are
  never read); \<open>image_loader\<close> is the queue of calls posted to the worker thread by
  \<^verbatim>\<open>AsyncImageLoader.loadImage\<close> and not yet processed.
\<close>

record delegate =
  item_size :: qsize
  widget :: widget
  pixmap_cache :: "(string \<times> pixmap) list"
  image_cache :: "(string \<times> qimage) list"
  pending_loads :: "string set"
  image_loader :: "job list"

definition max_cache_size :: nat where
  "max_cache_size = 200"

definition max_image_cache_size :: nat where
  "max_image_cache_size = 100"

definition null_image :: qimage where
  "null_image = \<lparr>isNull = True, cacheKey = 0, img_width = 0, img_height = 0\<rparr>"

definition init_widget :: widget where
  "init_widget =
     \<lparr>w_image = Some null_image, scaled_image_cache = None,
      cache_size = \<lparr>sz_width = - 1, sz_height = - 1\<rparr>,
      loading_placeholder = False, is_loading = False, selected = False,
      model_name = Some ''name'', model_type = Some ''type'',
      geometry = \<lparr>sz_width = 640, sz_height = 480\<rparr>\<rparr>"

definition init_delegate :: delegate where
  "init_delegate =
     \<lparr>item_size = \<lparr>sz_width = 450, sz_height = 650\<rparr>, widget = init_widget,
      pixmap_cache = [], image_cache = [], pending_loads = {}, image_loader = []\<rparr>"

section \<open>The render widget\<close>

definition resize :: "widget \<Rightarrow> qsize \<Rightarrow> widget" where
  "resize w sz =
     (let w1 = w\<lparr>geometry := sz\<rparr>
      in if cache_size w1 \<noteq> sz
         then w1\<lparr>scaled_image_cache := None, cache_size := sz\<rparr>
         else w1)"

definition setModelName :: "widget \<Rightarrow> string option \<Rightarrow> widget" where
  "setModelName w nm = w\<lparr>model_name := nm\<rparr>"

definition setModelType :: "widget \<Rightarrow> string option \<Rightarrow> widget" where
  "setModelType w ty = w\<lparr>model_type := ty\<rparr>"

definition setImage :: "widget \<Rightarrow> qimage option \<Rightarrow> widget" where
  "setImage w img =
     (if w_image w \<noteq> img
      then w\<lparr>w_image := img, scaled_image_cache := None, is_loading := False\<rparr>
      else w)"

definition setLoadingState :: "widget \<Rightarrow> bool \<Rightarrow> widget" where
  "setLoadingState w loading =
     (let w1 = w\<lparr>is_loading := loading\<rparr>
      in if loading \<and> \<not> loading_placeholder w1
         then w1\<lparr>loading_placeholder := True\<rparr>
         else w1)"

definition getDisplayImage :: "widget \<Rightarrow> display_image" where
  "getDisplayImage w =
     (if is_loading w \<and> loading_placeholder w then LoadingPlaceholder
      else case scaled_image_cache w of
             Some scaled \<Rightarrow> Picture scaled
           | None \<Rightarrow>
               (case w_image w of
                  None \<Rightarrow> ErrorImage
                | Some img \<Rightarrow> if isNull img then ErrorImage else Picture img))"

definition render :: "widget \<Rightarrow> pixmap" where
  "render w =
     \<lparr>pm_size = geometry w, pm_name = model_name w, pm_type = model_type w,
      pm_image = getDisplayImage w, pm_selected = selected w\<rparr>"

section \<open>The transform worker\<close>

text \<open>
  \<^verbatim>\<open>ImageWorker.processImage\<close>. The argument \<open>scaled\<close> stands for the call
  \<^verbatim>\<open>image.scaled(target_size, KeepAspectRatio, mode)\<close> of this job: the scaled image, or
  \<open>None\<close> where the call raises. The result is the list of \<^verbatim>\<open>imageLoaded\<close> signals
  emitted, each a key and an image.
\<close>

definition processImage ::
  "string \<Rightarrow> qimage \<Rightarrow> qsize \<Rightarrow> (transformation \<Rightarrow> qimage option) \<Rightarrow> (string \<times> qimage) list" where
  "processImage cache_key img target scaled =
     (if isNull img then [(cache_key, img)]
      else case scaled (if sz_width target > 400 \<or> sz_height target > 400
                        then SmoothTransformation else FastTransformation) of
             Some s \<Rightarrow> [(cache_key, s)]
           | None \<Rightarrow> [(cache_key, img)])"

section \<open>The delegate\<close>

definition setItemSize :: "delegate \<Rightarrow> qsize \<Rightarrow> delegate" where
  "setItemSize st sz =
     st\<lparr>item_size := sz, widget := resize (widget st) sz,
        pixmap_cache := [], image_cache := []\<rparr>"

definition image_key :: "qimage option \<Rightarrow> string" where
  "image_key img =
     (case img of
        None \<Rightarrow> ''no_image''
      | Some i \<Rightarrow> if \<not> isNull i then str_int (py_hash (cacheKey i)) else ''no_image'')"

definition or_empty :: "string option \<Rightarrow> string" where
  "or_empty s = (case s of None \<Rightarrow> [] | Some t \<Rightarrow> t)"

definition getCacheKey :: "delegate \<Rightarrow> item \<Rightarrow> bool \<Rightarrow> string" where
  "getCacheKey st index sel =
     or_empty (item_name index) @ ''_'' @ or_empty (item_type index) @ ''_'' @
     image_key (decoration index) @ ''_'' @ str_bool sel @ ''_'' @
     str_int (sz_width (item_size st)) @ ''_'' @ str_int (sz_height (item_size st))"

definition getImageCacheKey :: "delegate \<Rightarrow> item \<Rightarrow> string" where
  "getImageCacheKey st index =
     ''img_'' @ image_key (decoration index) @ ''_'' @
     str_int (sz_width (item_size st)) @ ''_'' @ str_int (sz_height (item_size st))"

text \<open>
  \<^verbatim>\<open>_onImageReady\<close>. The list comprehension evaluates \<^verbatim>\<open>cache_key.split('_', 1)[1]\<close>
  once per key of the pixmap cache, so a key without an underscore raises only when that
  cache is not empty; the image cache has been written by then, the tracker has not.
\<close>

definition onImageReady :: "delegate \<Rightarrow> string \<Rightarrow> qimage \<Rightarrow> delegate \<times> exn option" where
  "onImageReady st cache_key processed_image =
     (let st1 = (if length (image_cache st) < max_image_cache_size
                 then st\<lparr>image_cache := AList.update cache_key processed_image (image_cache st)\<rparr>
                 else st)
      in if pixmap_cache st1 = []
         then (st1\<lparr>pending_loads := pending_loads st1 - {cache_key}\<rparr>, None)
         else case after_first CHR ''_'' cache_key of
                None \<Rightarrow> (st1, Some IndexError)
              | Some frag \<Rightarrow>
                  (let keys_to_remove = filter (str_contains frag) (map fst (pixmap_cache st1))
                   in (st1\<lparr>pixmap_cache := fold AList.delete keys_to_remove (pixmap_cache st1),
                           pending_loads := pending_loads st1 - {cache_key}\<rparr>, None)))"

text \<open>
  The target size of a scale job (lines 317 to 324 of \<^verbatim>\<open>paint\<close>). Python computes it in
  floating point; here the arithmetic is exact, on rationals. Dividing by an aspect
  ratio of zero raises \<^verbatim>\<open>ZeroDivisionError\<close>.
\<close>

definition target_size :: "qsize \<Rightarrow> qimage \<Rightarrow> exn + qsize" where
  "target_size isz img =
     (let height = of_int (sz_height isz) :: rat;
          aspect_ratio = (if img_height img > 0
                          then of_int (img_width img) / of_int (img_height img) else 1);
          width = height * aspect_ratio
      in if width < of_int (sz_width isz)
         then (if aspect_ratio = 0 then Inl ZeroDivisionError
               else Inr \<lparr>sz_width = sz_width isz,
                         sz_height = py_int (of_int (sz_width isz) / aspect_ratio)\<rparr>)
         else Inr \<lparr>sz_width = py_int width, sz_height = py_int height\<rparr>)"

text \<open>
  The second half of \<^verbatim>\<open>paint\<close> (lines 331 to 350): the widget takes the selection flag
  and the geometry of the request, is rendered into a pixmap, and the pixmap is stored
  under the request's key after the first twenty keys have been deleted from a cache
  that holds \<open>max_cache_size\<close> entries or more.
\<close>

definition render_and_cache :: "delegate \<Rightarrow> string \<Rightarrow> style_option \<Rightarrow> delegate \<times> (exn + pixmap)" where
  "render_and_cache st cache_key option =
     (let w = (widget st)\<lparr>selected := opt_selected option, geometry := opt_rect option\<rparr>;
          pm = render w;
          cache = (if length (pixmap_cache st) \<ge> max_cache_size
                   then fold AList.delete (take 20 (map fst (pixmap_cache st))) (pixmap_cache st)
                   else pixmap_cache st)
      in (st\<lparr>widget := w, pixmap_cache := AList.update cache_key pm cache\<rparr>, Inr pm))"

definition valid_image :: "qimage option \<Rightarrow> bool" where
  "valid_image img = (case img of None \<Rightarrow> False | Some i \<Rightarrow> \<not> isNull i)"

text \<open>
  \<^verbatim>\<open>paint\<close>: the new delegate state and the pixmap drawn, or the exception raised.
\<close>

definition paint :: "delegate \<Rightarrow> item \<Rightarrow> style_option \<Rightarrow> delegate \<times> (exn + pixmap)" where
  "paint st index option =
     (let cache_key = getCacheKey st index (opt_selected option)
      in case map_of (pixmap_cache st) cache_key of
           Some pm \<Rightarrow> (st, Inr pm)
         | None \<Rightarrow>
             (let w0 = setModelType (setModelName (widget st) (item_name index)) (item_type index);
                  img = decoration index;
                  image_cache_key = getImageCacheKey st index
              in case map_of (image_cache st) image_cache_key of
                   Some cached \<Rightarrow>
                     render_and_cache
                       (st\<lparr>widget := setLoadingState (setImage w0 (Some cached)) False\<rparr>)
                       cache_key option
                 | None \<Rightarrow>
                     (case (if valid_image img \<and> image_cache_key \<notin> pending_loads st
                            then img else None) of
                        Some raw \<Rightarrow>
                          (let st1 = st\<lparr>widget := setLoadingState (setImage w0 img) True,
                                        pending_loads := insert image_cache_key (pending_loads st)\<rparr>
                           in case target_size (item_size st1) raw of
                                Inl e \<Rightarrow> (st1, Inl e)
                              | Inr ts \<Rightarrow>
                                  render_and_cache
                                    (st1\<lparr>image_loader := image_loader st1 @
                                           [\<lparr>job_key = image_cache_key, job_image = raw,
                                             job_target = ts\<rparr>]\<rparr>)
                                    cache_key option)
                      | None \<Rightarrow>
                          render_and_cache
                            (st\<lparr>widget := setLoadingState (setImage w0 img) False\<rparr>)
                            cache_key option)))"

definition clearCaches :: "delegate \<Rightarrow> delegate" where
  "clearCaches st = st\<lparr>pixmap_cache := [], image_cache := [], pending_loads := {}\<rparr>"

section \<open>The pipeline as a state machine\<close>

text \<open>
  The events the delegate sees: a paint request, the worker finishing the oldest queued
  job (with the behaviour of \<^verbatim>\<open>QImage.scaled\<close> for that job) and the delivery of its
  signals to \<^verbatim>\<open>_onImageReady\<close>, a new item size, and \<^verbatim>\<open>clearCaches\<close>.
\<close>

datatype event =
    Paint item style_option
  | ImageProcessed "transformation \<Rightarrow> qimage option"
  | SetItemSize qsize
  | ClearCaches

definition deliver :: "(string \<times> qimage) list \<Rightarrow> delegate \<Rightarrow> delegate" where
  "deliver signals st = fold (\<lambda>(k, img) s. fst (onImageReady s k img)) signals st"

fun step :: "delegate \<Rightarrow> event \<Rightarrow> delegate" where
  "step st (Paint index option) = fst (paint st index option)"
| "step st (ImageProcessed scaled) =
     (case image_loader st of
        [] \<Rightarrow> st
      | j # js \<Rightarrow>
          deliver (processImage (job_key j) (job_image j) (job_target j) scaled)
            (st\<lparr>image_loader := js\<rparr>))"
| "step st (SetItemSize sz) = setItemSize st sz"
| "step st ClearCaches = clearCaches st"

definition run :: "delegate \<Rightarrow> event list \<Rightarrow> delegate" where
  "run st evs = foldl step st evs"

section \<open>Key derivation is not injective in name and type\<close>

text \<open>
  C10. The pixmap cache key joins name, type, image key, selection flag and item size
  with underscores, so the name \<open>a_b\<close> with type \<open>c\<close> and the name \<open>a\<close> with type \<open>b_c\<close>
  derive the same key whatever the image, the selection flag and the item size are: the
  two distinct items share one entry of the rendered-payload cache.
\<close>

theorem getCacheKey_not_injective:
  "getCacheKey st \<lparr>item_name = Some ''a_b'', item_type = Some ''c'', decoration = img\<rparr> sel =
   getCacheKey st \<lparr>item_name = Some ''a'', item_type = Some ''b_c'', decoration = img\<rparr> sel
   \<and> \<lparr>item_name = Some ''a_b'', item_type = Some ''c'', decoration = img\<rparr> \<noteq>
     \<lparr>item_name = Some ''a'', item_type = Some ''b_c'', decoration = img\<rparr>"
  by (simp add: getCacheKey_def or_empty_def)

end
